theory Spec2Isabelle
  imports Main
begin

section \<open>Python strings\<close>

text \<open>
  A Python \<open>str\<close> is modelled as a \<^typ>\<open>string\<close>, one \<^typ>\<open>char\<close> per code point, so the
  model covers the code points below 256 (ASCII and Latin-1). On that range
  \<open>str.isspace\<close>, \<open>str.strip\<close>, \<open>str.lower\<close>, \<open>str.startswith\<close> and \<open>str.split(sep)\<close> are
  written out as CPython computes them.
\<close>

definition py_isspace :: "char \<Rightarrow> bool" where
  "py_isspace c =
     (c \<in> {CHR 0x09, CHR 0x0A, CHR 0x0B, CHR 0x0C, CHR 0x0D, CHR 0x1C, CHR 0x1D,
            CHR 0x1E, CHR 0x1F, CHR 0x20, CHR 0x85, CHR 0xA0})"

definition py_strip :: "string \<Rightarrow> string" where
  "py_strip s = rev (dropWhile py_isspace (rev (dropWhile py_isspace s)))"

definition char_lower :: "char \<Rightarrow> char" where
  "char_lower c =
     (let n = (of_char c :: nat)
      in if (65 \<le> n \<and> n \<le> 90) \<or> (192 \<le> n \<and> n \<le> 222 \<and> n \<noteq> 215)
         then char_of (n + 32) else c)"

definition py_lower :: "string \<Rightarrow> string" where
  "py_lower s = map char_lower s"

definition py_startswith :: "string \<Rightarrow> string \<Rightarrow> bool" where
  "py_startswith s p = (take (length p) s = p)"

text \<open>\<open>s.split(sep)\<close> for a one-character separator: every occurrence splits, and the
  result is never empty (\<open>"".split(" ")\<close> is \<open>[""]\<close>).\<close>

fun py_split :: "char \<Rightarrow> string \<Rightarrow> string list" where
  "py_split sep [] = [[]]"
| "py_split sep (c # cs) =
     (if c = sep then [] # py_split sep cs
      else (case py_split sep cs of
              [] \<Rightarrow> [[c]]
            | w # ws \<Rightarrow> (c # w) # ws))"

text \<open>The decimal text of an integer, as an f-string renders it.\<close>

fun str_nat :: "nat \<Rightarrow> string" where
  "str_nat n =
     (if n < 10 then [''0123456789'' ! n]
      else str_nat (n div 10) @ [''0123456789'' ! (n mod 10)])"

declare str_nat.simps [simp del]

definition str_int :: "int \<Rightarrow> string" where
  "str_int i = (if i < 0 then CHR ''-'' # str_nat (nat (- i)) else str_nat (nat i))"

section \<open>Exceptions and responses\<close>

text \<open>
  The exceptions the two source files can meet. \<open>HTTPException\<close> carries the status and
  the detail; a detail is a message or, for the form, the list of pydantic's error
  entries, kept here as the pair of the field (\<open>loc\<close>) and the text of the \<open>ValueError\<close>
  (\<open>ctx.error\<close>). Every other exception is \<open>Raised\<close>: nothing in the source catches it,
  and the server answers 500.
\<close>

datatype exn = IndexError | SQLAlchemyError | MultipleResultsFound | ResponseValidationError

datatype detail = Msg string | Errors "(string \<times> string) list"

datatype failure = HTTPException nat detail | Raised exn

section \<open>Data model\<close>

datatype date = Date int int int

record UploadFile =
  filename :: string
  content_type :: string
  content :: string

record ProfileCreateSchema =
  first_name :: string
  last_name :: string
  gender :: string
  date_of_birth :: date
  info :: string
  avatar :: UploadFile

text \<open>A row of the user table; its \<open>id\<close> is the key under which the table holds it.\<close>

record UserModel =
  u_is_active :: bool
  u_group_id :: int

text \<open>A row of the profile table; \<open>p_id\<close> is \<open>None\<close> until the row is flushed.\<close>

record UserProfileModel =
  p_id :: "int option"
  p_user_id :: int
  p_first_name :: string
  p_last_name :: string
  p_gender :: string
  p_date_of_birth :: date
  p_info :: string
  p_avatar :: string

record ProfileResponseSchema =
  r_id :: int
  r_user_id :: int
  r_first_name :: string
  r_last_name :: string
  r_gender :: string
  r_date_of_birth :: date
  r_info :: string
  r_avatar :: string

text \<open>The decoded token: a dict. The entries this code reads are integers.\<close>

type_synonym claims = "string \<rightharpoonup> int"

section \<open>Injected collaborators\<close>

text \<open>
  The modules \<open>validation\<close>, \<open>security\<close>, \<open>storages\<close> and \<open>database\<close> are used through
  narrow interfaces and are parameters of the model:
  \<^item> \<open>decode_access_token\<close> returns the claims or raises (\<open>Inl\<close> the cause);
  \<^item> each validator returns \<open>None\<close> or raises \<open>ValueError\<close> (\<open>Some\<close> its text);
  \<^item> \<open>upload_raises key bytes\<close> tells whether the storage client raises
    \<open>S3FileUploadError\<close>; \<open>get_file_url\<close> resolves a key;
  \<^item> \<open>commit_raises\<close> and \<open>refresh_raises\<close> tell whether the session's \<open>commit\<close> and
    \<open>refresh\<close> raise \<open>SQLAlchemyError\<close>; \<open>assign_id\<close> is the primary key the engine gives
    a new row, from the rows of the table.
\<close>

record env =
  decode_access_token :: "string \<Rightarrow> string + claims"
  validate_name :: "string \<Rightarrow> string option"
  validate_gender :: "string \<Rightarrow> string option"
  validate_birth_date :: "date \<Rightarrow> string option"
  validate_image :: "UploadFile \<Rightarrow> string option"
  upload_raises :: "string \<Rightarrow> string \<Rightarrow> bool"
  get_file_url :: "string \<Rightarrow> string"
  commit_raises :: bool
  refresh_raises :: bool
  assign_id :: "UserProfileModel list \<Rightarrow> int"

section \<open>The authenticator\<close>

text \<open>\<open>xs[1]\<close>: \<open>IndexError\<close> when the list has fewer than two elements.\<close>

definition index1 :: "'a list \<Rightarrow> exn + 'a" where
  "index1 xs = (case xs of _ # x # _ \<Rightarrow> Inr x | _ \<Rightarrow> Inl IndexError)"

definition get_current_user_payload ::
  "env \<Rightarrow> string option \<Rightarrow> failure + claims" where
  "get_current_user_payload E auth_header =
     (case auth_header of
        None \<Rightarrow> Inl (HTTPException 401 (Msg ''Authorization header is missing''))
      | Some h \<Rightarrow>
          if h = [] then Inl (HTTPException 401 (Msg ''Authorization header is missing''))
          else if \<not> py_startswith h ''Bearer '' then
            Inl (HTTPException 401
              (Msg (''Invalid Authorization header format. Expected 'Bearer <token>'' @ [CHR 0x27])))
          else
            (case index1 (py_split CHR '' '' h) of
               Inl e \<Rightarrow> Inl (Raised e)
             | Inr token \<Rightarrow>
                 (case decode_access_token E token of
                    Inl cause \<Rightarrow> Inl (HTTPException 401 (Msg ''Token has expired.''))
                  | Inr payload \<Rightarrow> Inr payload)))"

section \<open>The form\<close>

definition validate_info :: "string \<Rightarrow> string + string" where
  "validate_info v =
     (if py_strip v = [] then Inl ''Info field cannot be empty or contain only spaces.''
      else Inr v)"

text \<open>One error entry of pydantic's \<open>ValidationError\<close> for a field whose validator raised.\<close>

definition field_errors :: "string \<Rightarrow> string option \<Rightarrow> (string \<times> string) list" where
  "field_errors loc r = (case r of None \<Rightarrow> [] | Some msg \<Rightarrow> [(loc, msg)])"

definition info_errors :: "string \<Rightarrow> (string \<times> string) list" where
  "info_errors v = (case validate_info v of Inl msg \<Rightarrow> [(''info'', msg)] | Inr _ \<Rightarrow> [])"

text \<open>
  \<open>ProfileCreateSchema.as_form\<close>: the model is built from the six form values; the field
  validators run in the order of the fields and pydantic collects every error; a
  non-empty collection becomes \<open>HTTPException(422, detail=errors)\<close>. The validators return
  the value they were given, so the schema holds the submitted values.
\<close>

definition as_form ::
  "env \<Rightarrow> string \<Rightarrow> string \<Rightarrow> string \<Rightarrow> date \<Rightarrow> string \<Rightarrow> UploadFile
     \<Rightarrow> failure + ProfileCreateSchema" where
  "as_form E fn ln g dob i av =
     (let errors =
            field_errors ''first_name'' (validate_name E fn)
          @ field_errors ''last_name'' (validate_name E ln)
          @ field_errors ''gender'' (validate_gender E g)
          @ field_errors ''date_of_birth'' (validate_birth_date E dob)
          @ info_errors i
          @ field_errors ''avatar'' (validate_image E av)
      in if errors = [] then
           Inr \<lparr>first_name = fn, last_name = ln, gender = g, date_of_birth = dob,
                info = i, avatar = av\<rparr>
         else Inl (HTTPException 422 (Errors errors)))"

section \<open>Database session and object storage\<close>

text \<open>
  The state a request works on: the user table (by primary key), the rows of the profile
  table, the objects added to the session and not yet flushed, the stored objects, and the
  calls made to the collaborators so far, oldest first.
\<close>

datatype event =
    S3Upload string string
  | SelectUser "int option"
  | SelectProfile int
  | Add
  | Commit
  | Refresh
  | Rollback
  | GetFileUrl string

record world =
  users :: "int \<rightharpoonup> UserModel"
  profiles :: "UserProfileModel list"
  pending :: "UserProfileModel list"
  s3_objects :: "string \<rightharpoonup> string"
  trace :: "event list"

definition log_event :: "event \<Rightarrow> world \<Rightarrow> world" where
  "log_event e w = w\<lparr>trace := trace w @ [e]\<rparr>"

text \<open>\<open>Result.scalar_one_or_none()\<close>: no row, the one row, or \<open>MultipleResultsFound\<close>.\<close>

definition scalar_one_or_none :: "'a list \<Rightarrow> exn + 'a option" where
  "scalar_one_or_none rows =
     (case rows of [] \<Rightarrow> Inr None | [r] \<Rightarrow> Inr (Some r) | _ \<Rightarrow> Inl MultipleResultsFound)"

text \<open>\<open>s3_client.upload_file(key, bytes)\<close>: \<open>False\<close> stands for \<open>S3FileUploadError\<close>.\<close>

definition upload_file :: "env \<Rightarrow> string \<Rightarrow> string \<Rightarrow> world \<Rightarrow> bool \<times> world" where
  "upload_file E key bytes w =
     (let w1 = log_event (S3Upload key bytes) w
      in if upload_raises E key bytes then (False, w1)
         else (True, w1\<lparr>s3_objects := (s3_objects w1)(key \<mapsto> bytes)\<rparr>))"

text \<open>\<open>db.add\<close> returns, in the model, the position the object's row takes in the table
  when the session is flushed; it stands for the identity of the Python object.\<close>

definition db_add :: "UserProfileModel \<Rightarrow> world \<Rightarrow> nat \<times> world" where
  "db_add p w =
     (length (profiles w) + length (pending w),
      log_event Add (w\<lparr>pending := pending w @ [p]\<rparr>))"

fun flush :: "env \<Rightarrow> UserProfileModel list \<Rightarrow> UserProfileModel list \<Rightarrow> UserProfileModel list" where
  "flush E rows [] = rows"
| "flush E rows (p # ps) = flush E (rows @ [p\<lparr>p_id := Some (assign_id E rows)\<rparr>]) ps"

definition db_commit :: "env \<Rightarrow> world \<Rightarrow> (exn + unit) \<times> world" where
  "db_commit E w =
     (let w1 = log_event Commit w
      in if commit_raises E then (Inl SQLAlchemyError, w1)
         else (Inr (), w1\<lparr>profiles := flush E (profiles w1) (pending w1), pending := []\<rparr>))"

definition db_refresh :: "env \<Rightarrow> nat \<Rightarrow> world \<Rightarrow> (exn + UserProfileModel) \<times> world" where
  "db_refresh E ref w =
     (let w1 = log_event Refresh w
      in if refresh_raises E \<or> \<not> ref < length (profiles w1) then (Inl SQLAlchemyError, w1)
         else (Inr (profiles w1 ! ref), w1))"

definition db_rollback :: "world \<Rightarrow> world" where
  "db_rollback w = log_event Rollback (w\<lparr>pending := []\<rparr>)"

section \<open>The repository functions\<close>

definition create_profile ::
  "env \<Rightarrow> int \<Rightarrow> string \<Rightarrow> string \<Rightarrow> string \<Rightarrow> date \<Rightarrow> string \<Rightarrow> string \<Rightarrow> world
     \<Rightarrow> (exn + UserProfileModel) \<times> world" where
  "create_profile E user_id fn ln g dob i avatar_url w =
     (let profile = \<lparr>p_id = None, p_user_id = user_id, p_first_name = fn, p_last_name = ln,
                     p_gender = g, p_date_of_birth = dob, p_info = i, p_avatar = avatar_url\<rparr>;
          (ref, w1) = db_add profile w
      in case db_commit E w1 of
           (Inl e, w2) \<Rightarrow> (Inl e, db_rollback w2)
         | (Inr _, w2) \<Rightarrow>
             (case db_refresh E ref w2 of
                (Inl e, w3) \<Rightarrow> (Inl e, db_rollback w3)
              | (Inr p, w3) \<Rightarrow> (Inr p, w3)))"

text \<open>\<open>select(UserModel).where(UserModel.id == user_id)\<close>; a \<open>None\<close> id compares as
  \<open>IS NULL\<close> and selects no row of a primary key.\<close>

definition get_user_by_id :: "int option \<Rightarrow> world \<Rightarrow> UserModel option \<times> world" where
  "get_user_by_id user_id w =
     ((case user_id of None \<Rightarrow> None | Some i \<Rightarrow> users w i),
      log_event (SelectUser user_id) w)"

section \<open>The request handler\<close>

definition avatar_key_of :: "int \<Rightarrow> string" where
  "avatar_key_of user_id = ''avatars/'' @ str_int user_id @ ''_avatar.jpg''"

definition create_user_profile ::
  "env \<Rightarrow> int \<Rightarrow> ProfileCreateSchema \<Rightarrow> claims \<Rightarrow> world
     \<Rightarrow> (failure + UserProfileModel) \<times> world" where
  "create_user_profile E user_id data payload w =
     (let current_user_id = payload ''user_id'';
          avatar_key = avatar_key_of user_id
      in case validate_image E (avatar data) of
           Some msg \<Rightarrow> (Inl (HTTPException 422 (Msg msg)), w)
         | None \<Rightarrow>
      (case upload_file E avatar_key (content (avatar data)) w of
           (False, w1) \<Rightarrow>
             (Inl (HTTPException 500 (Msg ''Failed to upload avatar. Please try again later.'')), w1)
         | (True, w1) \<Rightarrow>
      (case get_user_by_id current_user_id w1 of
           (None, w2) \<Rightarrow> (Inl (HTTPException 401 (Msg ''User not found or not active.'')), w2)
         | (Some current_user, w2) \<Rightarrow>
      (let is_admin = (u_group_id current_user = 3)
       in if current_user_id \<noteq> Some user_id \<and> \<not> is_admin then
            (Inl (HTTPException 403 (Msg (''You don'' @ [CHR 0x27] @ ''t have permission to edit this profile.''))), w2)
          else
      (let w3 = log_event (SelectProfile user_id) w2
       in case scalar_one_or_none (filter (\<lambda>p. p_user_id p = user_id) (profiles w3)) of
            Inl e \<Rightarrow> (Inl (Raised e), w3)
          | Inr (Some _) \<Rightarrow> (Inl (HTTPException 400 (Msg ''User already has a profile.'')), w3)
          | Inr None \<Rightarrow>
      (case get_user_by_id (Some user_id) w3 of
           (None, w4) \<Rightarrow> (Inl (HTTPException 401 (Msg ''User not found or not active.'')), w4)
         | (Some user, w4) \<Rightarrow>
             if \<not> u_is_active user then
               (Inl (HTTPException 401 (Msg ''User not found or not active.'')), w4)
             else
      (case create_profile E user_id (py_lower (first_name data)) (py_lower (last_name data))
              (gender data) (date_of_birth data) (py_strip (info data)) avatar_key w4 of
           (Inl e, w5) \<Rightarrow> (Inl (Raised e), w5)
         | (Inr profile, w5) \<Rightarrow>
             (Inr (profile\<lparr>p_avatar := get_file_url E (p_avatar profile)\<rparr>),
              log_event (GetFileUrl (p_avatar profile)) w5))))))))"

section \<open>The route\<close>

record request =
  path_user_id :: int
  authorization :: "string option"
  form_first_name :: string
  form_last_name :: string
  form_gender :: string
  form_date_of_birth :: date
  form_info :: string
  form_avatar :: UploadFile

datatype response =
    Created ProfileResponseSchema
  | Error nat detail
  | InternalServerError exn

fun status_code :: "response \<Rightarrow> nat" where
  "status_code (Created _) = 201"
| "status_code (Error n _) = n"
| "status_code (InternalServerError _) = 500"

text \<open>\<open>response_model=ProfileResponseSchema\<close>, read from the attributes of the row.\<close>

definition serialize_response :: "UserProfileModel \<Rightarrow> response" where
  "serialize_response p =
     (case p_id p of
        None \<Rightarrow> InternalServerError ResponseValidationError
      | Some i \<Rightarrow>
          Created \<lparr>r_id = i, r_user_id = p_user_id p, r_first_name = p_first_name p,
                   r_last_name = p_last_name p, r_gender = p_gender p,
                   r_date_of_birth = p_date_of_birth p, r_info = p_info p,
                   r_avatar = p_avatar p\<rparr>)"

fun failure_response :: "failure \<Rightarrow> response" where
  "failure_response (HTTPException n d) = Error n d"
| "failure_response (Raised e) = InternalServerError e"

text \<open>
  \<open>POST /users/{user_id}/profile/\<close>. The framework solves the \<open>Depends\<close> parameters of
  \<open>create_user_profile\<close> in the order of its signature, \<open>data\<close> (\<open>as_form\<close>) before \<open>payload\<close>
  (\<open>get_current_user_payload\<close>), and an \<open>HTTPException\<close> raised by one of them ends the
  request; then it calls the handler and serialises what it returns. Here a request is
  taken after the framework's own extraction of the path and form parameters: the six
  form values are present and of their declared types. \<open>route_user_profile\<close> below is the
  route before that extraction.
\<close>

definition post_user_profile :: "env \<Rightarrow> request \<Rightarrow> world \<Rightarrow> response \<times> world" where
  "post_user_profile E req w =
     (case as_form E (form_first_name req) (form_last_name req) (form_gender req)
             (form_date_of_birth req) (form_info req) (form_avatar req) of
        Inl f \<Rightarrow> (failure_response f, w)
      | Inr data \<Rightarrow>
          (case get_current_user_payload E (authorization req) of
             Inl f \<Rightarrow> (failure_response f, w)
           | Inr payload \<Rightarrow>
               (case create_user_profile E (path_user_id req) data payload w of
                  (Inl f, w') \<Rightarrow> (failure_response f, w')
                | (Inr profile, w') \<Rightarrow> (serialize_response profile, w'))))"

text \<open>
  The route before the extraction of its parameters. Once the framework has read the body
  as form data, each parameter of the path and of the form is missing, invalid (with the
  framework's message) or extracted with its declared type. A dependency whose parameters
  were not all extracted is not called: the framework keeps the errors and goes on to the
  next dependency, so \<open>get_current_user_payload\<close> still runs and its \<open>HTTPException\<close> ends
  the request; when every dependency has been solved, kept errors are answered 422 and the
  handler is not called.
\<close>

datatype 'a extracted = Missing | Invalid string | Value 'a

record raw_request =
  raw_user_id :: "int extracted"
  raw_authorization :: "string option"
  raw_first_name :: "string extracted"
  raw_last_name :: "string extracted"
  raw_gender :: "string extracted"
  raw_date_of_birth :: "date extracted"
  raw_info :: "string extracted"
  raw_avatar :: "UploadFile extracted"

definition param_errors :: "string \<Rightarrow> 'a extracted \<Rightarrow> (string \<times> string) list" where
  "param_errors loc v =
     (case v of
        Missing \<Rightarrow> [(loc, ''Field required'')]
      | Invalid msg \<Rightarrow> [(loc, msg)]
      | Value _ \<Rightarrow> [])"

fun value_of :: "'a extracted \<Rightarrow> 'a option" where
  "value_of (Value v) = Some v"
| "value_of Missing = None"
| "value_of (Invalid msg) = None"

text \<open>The six arguments of \<open>as_form\<close>, when all of them were extracted.\<close>

definition form_values ::
  "raw_request \<Rightarrow> (string \<times> string \<times> string \<times> date \<times> string \<times> UploadFile) option" where
  "form_values raw =
     (case value_of (raw_first_name raw) of None \<Rightarrow> None | Some fn \<Rightarrow>
      case value_of (raw_last_name raw) of None \<Rightarrow> None | Some ln \<Rightarrow>
      case value_of (raw_gender raw) of None \<Rightarrow> None | Some g \<Rightarrow>
      case value_of (raw_date_of_birth raw) of None \<Rightarrow> None | Some dob \<Rightarrow>
      case value_of (raw_info raw) of None \<Rightarrow> None | Some i \<Rightarrow>
      case value_of (raw_avatar raw) of None \<Rightarrow> None | Some av \<Rightarrow>
        Some (fn, ln, g, dob, i, av))"

definition form_errors :: "raw_request \<Rightarrow> (string \<times> string) list" where
  "form_errors raw =
       param_errors ''first_name'' (raw_first_name raw)
     @ param_errors ''last_name'' (raw_last_name raw)
     @ param_errors ''gender'' (raw_gender raw)
     @ param_errors ''date_of_birth'' (raw_date_of_birth raw)
     @ param_errors ''info'' (raw_info raw)
     @ param_errors ''avatar'' (raw_avatar raw)"

text \<open>Solving \<open>data\<close>: \<open>as_form\<close> raises, or is skipped (\<open>None\<close>), or returns the schema.\<close>

definition solve_data :: "env \<Rightarrow> raw_request \<Rightarrow> failure + ProfileCreateSchema option" where
  "solve_data E raw =
     (case form_values raw of
        None \<Rightarrow> Inr None
      | Some (fn, ln, g, dob, i, av) \<Rightarrow>
          (case as_form E fn ln g dob i av of
             Inl f \<Rightarrow> Inl f
           | Inr data \<Rightarrow> Inr (Some data)))"

definition route_user_profile :: "env \<Rightarrow> raw_request \<Rightarrow> world \<Rightarrow> response \<times> world" where
  "route_user_profile E raw w =
     (case solve_data E raw of
        Inl f \<Rightarrow> (failure_response f, w)
      | Inr solved \<Rightarrow>
          (case get_current_user_payload E (raw_authorization raw) of
             Inl f \<Rightarrow> (failure_response f, w)
           | Inr payload \<Rightarrow>
               (case (solved, value_of (raw_user_id raw)) of
                  (Some data, Some user_id) \<Rightarrow>
                    (case create_user_profile E user_id data payload w of
                       (Inl f, w') \<Rightarrow> (failure_response f, w')
                     | (Inr profile, w') \<Rightarrow> (serialize_response profile, w'))
                | _ \<Rightarrow>
                    (Error 422
                       (Errors (form_errors raw @ param_errors ''user_id'' (raw_user_id raw))),
                     w))))"

text \<open>A request whose parameters were all extracted, as the route receives it.\<close>

definition raw_of :: "request \<Rightarrow> raw_request" where
  "raw_of req =
     \<lparr>raw_user_id = Value (path_user_id req),
      raw_authorization = authorization req,
      raw_first_name = Value (form_first_name req),
      raw_last_name = Value (form_last_name req),
      raw_gender = Value (form_gender req),
      raw_date_of_birth = Value (form_date_of_birth req),
      raw_info = Value (form_info req),
      raw_avatar = Value (form_avatar req)\<rparr>"

section \<open>The pipeline as the specification words it\<close>

text \<open>
  The specification gives the handler as a list of steps run in order, each with the
  failure it signals, and the first failure ends the request. \<open>spec_failure\<close> reads the
  failure of a step off the request and the state the request starts in;
  \<open>spec_events\<close> gives the calls to the collaborators a step makes.
\<close>

datatype step =
    ValidateForm
  | UploadAvatar
  | ResolveActingUser
  | Authorize
  | CheckExisting
  | ResolveTargetUser
  | CreateProfile

definition spec_steps :: "step list" where
  "spec_steps =
     [ValidateForm, UploadAvatar, ResolveActingUser, Authorize, CheckExisting,
      ResolveTargetUser, CreateProfile]"

definition acting_user :: "claims \<Rightarrow> world \<Rightarrow> UserModel option" where
  "acting_user payload w = (case payload ''user_id'' of None \<Rightarrow> None | Some i \<Rightarrow> users w i)"

definition unauthorized :: failure where
  "unauthorized = HTTPException 401 (Msg ''User not found or not active.'')"

definition forbidden :: failure where
  "forbidden =
     HTTPException 403 (Msg (''You don'' @ [CHR 0x27] @ ''t have permission to edit this profile.''))"

definition conflict :: failure where
  "conflict = HTTPException 400 (Msg ''User already has a profile.'')"

definition upload_error :: failure where
  "upload_error = HTTPException 500 (Msg ''Failed to upload avatar. Please try again later.'')"

fun spec_failure ::
  "env \<Rightarrow> int \<Rightarrow> ProfileCreateSchema \<Rightarrow> claims \<Rightarrow> world \<Rightarrow> step \<Rightarrow> failure option" where
  "spec_failure E uid data payload w ValidateForm =
     map_option (\<lambda>msg. HTTPException 422 (Msg msg)) (validate_image E (avatar data))"
| "spec_failure E uid data payload w UploadAvatar =
     (if upload_raises E (avatar_key_of uid) (content (avatar data)) then Some upload_error
      else None)"
| "spec_failure E uid data payload w ResolveActingUser =
     (case acting_user payload w of None \<Rightarrow> Some unauthorized | Some u \<Rightarrow> None)"
| "spec_failure E uid data payload w Authorize =
     (case acting_user payload w of
        None \<Rightarrow> None
      | Some u \<Rightarrow>
          if payload ''user_id'' = Some uid \<or> u_group_id u = 3 then None else Some forbidden)"
| "spec_failure E uid data payload w CheckExisting =
     (if uid \<in> p_user_id ` set (profiles w) then Some conflict else None)"
| "spec_failure E uid data payload w ResolveTargetUser =
     (case users w uid of
        None \<Rightarrow> Some unauthorized
      | Some u \<Rightarrow> if u_is_active u then None else Some unauthorized)"
| "spec_failure E uid data payload w CreateProfile =
     (if commit_raises E \<or> refresh_raises E then Some (Raised SQLAlchemyError) else None)"

fun spec_events :: "env \<Rightarrow> int \<Rightarrow> ProfileCreateSchema \<Rightarrow> claims \<Rightarrow> step \<Rightarrow> event list" where
  "spec_events E uid data payload ValidateForm = []"
| "spec_events E uid data payload UploadAvatar =
     [S3Upload (avatar_key_of uid) (content (avatar data))]"
| "spec_events E uid data payload ResolveActingUser = [SelectUser (payload ''user_id'')]"
| "spec_events E uid data payload Authorize = []"
| "spec_events E uid data payload CheckExisting = [SelectProfile uid]"
| "spec_events E uid data payload ResolveTargetUser = [SelectUser (Some uid)]"
| "spec_events E uid data payload CreateProfile =
     (if commit_raises E then [Add, Commit, Rollback]
      else if refresh_raises E then [Add, Commit, Refresh, Rollback]
      else [Add, Commit, Refresh])"

text \<open>Running the steps: the first failing step ends the run, and no later step adds a call.\<close>

fun spec_run ::
  "(step \<Rightarrow> failure option) \<Rightarrow> (step \<Rightarrow> event list) \<Rightarrow> step list
     \<Rightarrow> failure option \<times> event list" where
  "spec_run fails events [] = (None, [])"
| "spec_run fails events (s # ss) =
     (case fails s of
        Some f \<Rightarrow> (Some f, events s)
      | None \<Rightarrow> (case spec_run fails events ss of (r, es) \<Rightarrow> (r, events s @ es)))"

text \<open>The invariant of the data model: at most one profile for a user id.\<close>

definition one_profile_per_user :: "UserProfileModel list \<Rightarrow> bool" where
  "one_profile_per_user rows = distinct (map p_user_id rows)"

text \<open>The token \<open>get_current_user_payload\<close> takes from a header \<open>"Bearer " + rest\<close>.\<close>

definition bearer_token :: "string \<Rightarrow> string" where
  "bearer_token rest = takeWhile (\<lambda>c. c \<noteq> CHR '' '') rest"

section \<open>A scenario\<close>

text \<open>
  Collaborators, a state and a request on which the theorems below are run: user 42 is
  active and has no profile, user 1 is an administrator, user 7 is inactive, and user 8
  has a profile.
\<close>

definition sample_decode :: "string \<Rightarrow> string + claims" where
  "sample_decode token =
     (if token = ''t42'' then Inr [''user_id'' \<mapsto> 42, ''exp'' \<mapsto> 1999999999]
      else if token = ''t1'' then Inr [''user_id'' \<mapsto> 1]
      else if token = ''t7'' then Inr [''user_id'' \<mapsto> 7]
      else if token = ''anon'' then Inr [''exp'' \<mapsto> 1999999999]
      else Inl ''Signature verification failed'')"

definition sample_env :: env where
  "sample_env =
     \<lparr>decode_access_token = sample_decode,
      validate_name = (\<lambda>v. if v = [] then Some ''Name is empty'' else None),
      validate_gender = (\<lambda>v. if v = ''man'' \<or> v = ''woman'' then None else Some ''Bad gender''),
      validate_birth_date = (\<lambda>d. None),
      validate_image =
        (\<lambda>f. if content_type f = ''image/jpeg'' then None else Some ''Invalid image format''),
      upload_raises = (\<lambda>key bytes. False),
      get_file_url = (\<lambda>key. ''https://cdn.test/'' @ key),
      commit_raises = False,
      refresh_raises = False,
      assign_id = (\<lambda>rows. int (length rows) + 1)\<rparr>"

text \<open>The same collaborators with a storage client whose upload raises.\<close>

definition failing_s3_env :: env where
  "failing_s3_env = sample_env\<lparr>upload_raises := (\<lambda>key bytes. True)\<rparr>"

definition sample_profile :: UserProfileModel where
  "sample_profile =
     \<lparr>p_id = Some 1, p_user_id = 8, p_first_name = ''bo'', p_last_name = ''li'',
      p_gender = ''man'', p_date_of_birth = Date 1980 5 6, p_info = ''hi'',
      p_avatar = ''avatars/8_avatar.jpg''\<rparr>"

definition sample_world :: world where
  "sample_world =
     \<lparr>users = [42 \<mapsto> \<lparr>u_is_active = True, u_group_id = 1\<rparr>,
               1 \<mapsto> \<lparr>u_is_active = True, u_group_id = 3\<rparr>,
               7 \<mapsto> \<lparr>u_is_active = False, u_group_id = 1\<rparr>,
               8 \<mapsto> \<lparr>u_is_active = True, u_group_id = 1\<rparr>],
      profiles = [sample_profile],
      pending = [],
      s3_objects = Map.empty,
      trace = []\<rparr>"

definition sample_avatar :: UploadFile where
  "sample_avatar = \<lparr>filename = ''me.jpg'', content_type = ''image/jpeg'', content = ''JFIF''\<rparr>"

definition sample_data :: ProfileCreateSchema where
  "sample_data =
     \<lparr>first_name = ''Ann'', last_name = ''LEE'', gender = ''woman'',
      date_of_birth = Date 1990 1 2, info = ''  hello  '', avatar = sample_avatar\<rparr>"

definition sample_request :: request where
  "sample_request =
     \<lparr>path_user_id = 42, authorization = Some ''Bearer t42'',
      form_first_name = ''Ann'', form_last_name = ''LEE'', form_gender = ''woman'',
      form_date_of_birth = Date 1990 1 2, form_info = ''  hello  '',
      form_avatar = sample_avatar\<rparr>"

section \<open>The authenticator: properties\<close>

lemma py_split_head_tail:
  "py_split sep s = takeWhile (\<lambda>c. c \<noteq> sep) s #
     (case dropWhile (\<lambda>c. c \<noteq> sep) s of [] \<Rightarrow> [] | _ # r \<Rightarrow> py_split sep r)"
  by (induction s) (auto split: list.splits)

lemma index1_split_bearer:
  assumes "h = ''Bearer '' @ rest"
  shows "index1 (py_split CHR '' '' h) = Inr (bearer_token rest)"
proof -
  have "py_split CHR '' '' h = ''Bearer'' # py_split CHR '' '' rest"
    using assms by simp
  moreover obtain ws where "py_split CHR '' '' rest = bearer_token rest # ws"
    using py_split_head_tail [of "CHR '' ''" rest] by (simp add: bearer_token_def)
  ultimately show ?thesis by (simp add: index1_def)
qed

lemma py_startswith_iff: "py_startswith h p \<longleftrightarrow> (\<exists>rest. h = p @ rest)"
proof
  assume "py_startswith h p"
  then have "h = p @ drop (length p) h"
    unfolding py_startswith_def by (metis append_take_drop_id)
  then show "\<exists>rest. h = p @ rest" ..
next
  assume "\<exists>rest. h = p @ rest"
  then show "py_startswith h p" by (auto simp: py_startswith_def)
qed

lemma payload_bearer:
  assumes "h = ''Bearer '' @ rest"
  shows "get_current_user_payload E (Some h) =
     (case decode_access_token E (bearer_token rest) of
        Inl cause \<Rightarrow> Inl (HTTPException 401 (Msg ''Token has expired.''))
      | Inr payload \<Rightarrow> Inr payload)"
proof -
  have sw: "py_startswith h ''Bearer ''"
    using assms py_startswith_iff by blast
  have ne: "h \<noteq> []" using assms by simp
  show ?thesis
    unfolding get_current_user_payload_def
    by (simp add: sw ne index1_split_bearer [OF assms])
qed


text \<open>
  Claim C6. The authenticator fails with 401 for a header that is missing, empty or does
  not start with \<open>Bearer \<close>. For a header \<open>"Bearer " + rest\<close> the token is \<open>rest\<close> up to its
  first space: when decoding it raises, whatever the cause, the failure is 401 with the
  message \<open>Token has expired.\<close>; when decoding returns, the claims are returned as they are.
\<close>

theorem authenticator_contract:
  "(h = None \<or> h = Some [] \<or> (\<exists>s. h = Some s \<and> \<not> py_startswith s ''Bearer '')
      \<longrightarrow> (\<exists>m. get_current_user_payload E h = Inl (HTTPException 401 (Msg m))))
   \<and> (decode_access_token E (bearer_token rest) = Inl cause
      \<longrightarrow> get_current_user_payload E (Some (''Bearer '' @ rest))
            = Inl (HTTPException 401 (Msg ''Token has expired.'')))
   \<and> (decode_access_token E (bearer_token rest) = Inr payload
      \<longrightarrow> get_current_user_payload E (Some (''Bearer '' @ rest)) = Inr payload)"
proof (intro conjI impI)
  assume "h = None \<or> h = Some [] \<or> (\<exists>s. h = Some s \<and> \<not> py_startswith s ''Bearer '')"
  then show "\<exists>m. get_current_user_payload E h = Inl (HTTPException 401 (Msg m))"
    by (auto simp: get_current_user_payload_def)
next
  assume "decode_access_token E (bearer_token rest) = Inl cause"
  then show "get_current_user_payload E (Some (''Bearer '' @ rest))
      = Inl (HTTPException 401 (Msg ''Token has expired.''))"
    using payload_bearer [OF refl, of E rest] by simp
next
  assume "decode_access_token E (bearer_token rest) = Inr payload"
  then show "get_current_user_payload E (Some (''Bearer '' @ rest)) = Inr payload"
    using payload_bearer [OF refl, of E rest] by simp
qed

theorem authenticator_contract_witness:
  "(\<exists>m. get_current_user_payload sample_env (Some ''Basic abc'') = Inl (HTTPException 401 (Msg m)))
   \<and> decode_access_token sample_env (bearer_token ''expired.jwt'') = Inl ''Signature verification failed''
   \<and> get_current_user_payload sample_env (Some ''Bearer expired.jwt'')
       = Inl (HTTPException 401 (Msg ''Token has expired.''))
   \<and> decode_access_token sample_env (bearer_token ''t1'') = Inr [''user_id'' \<mapsto> 1]
   \<and> get_current_user_payload sample_env (Some ''Bearer t1'') = Inr [''user_id'' \<mapsto> 1]"
proof -
  have a: "\<not> py_startswith ''Basic abc'' ''Bearer ''"
    by (simp add: py_startswith_def)
  have b: "decode_access_token sample_env (bearer_token ''expired.jwt'')
      = Inl ''Signature verification failed''"
    by (simp add: sample_env_def sample_decode_def bearer_token_def)
  have c: "decode_access_token sample_env (bearer_token ''t1'') = Inr [''user_id'' \<mapsto> 1]"
    by (simp add: sample_env_def sample_decode_def bearer_token_def)
  from authenticator_contract [of "Some ''Basic abc''" sample_env "''expired.jwt''"
      "''Signature verification failed''" "[''user_id'' \<mapsto> 1]"] a b
  have 1: "\<exists>m. get_current_user_payload sample_env (Some ''Basic abc'') = Inl (HTTPException 401 (Msg m))"
    and 2: "get_current_user_payload sample_env (Some ''Bearer expired.jwt'')
       = Inl (HTTPException 401 (Msg ''Token has expired.''))"
    by simp_all
  from authenticator_contract [of None sample_env "''t1''" "''x''" "[''user_id'' \<mapsto> 1]"] c
  have 3: "get_current_user_payload sample_env (Some ''Bearer t1'') = Inr [''user_id'' \<mapsto> 1]"
    by simp
  from 1 2 3 b c show ?thesis by blast
qed

section \<open>The session and the handler: properties\<close>

lemma flush_append:
  "flush E rows (ps @ [p]) =
     flush E rows ps @ [p\<lparr>p_id := Some (assign_id E (flush E rows ps))\<rparr>]"
  by (induction ps arbitrary: rows) simp_all

lemma length_flush: "length (flush E rows ps) = length rows + length ps"
  by (induction ps arbitrary: rows) simp_all


lemma create_profile_commit_raises:
  assumes "commit_raises E"
  shows "create_profile E uid fn ln g dob i k w =
     (Inl SQLAlchemyError, w\<lparr>pending := [], trace := trace w @ [Add, Commit, Rollback]\<rparr>)"
  using assms
  by (simp add: create_profile_def db_add_def db_commit_def db_rollback_def log_event_def)

lemma create_profile_refresh_raises:
  assumes "\<not> commit_raises E" and "refresh_raises E"
  shows "create_profile E uid fn ln g dob i k w =
     (Inl SQLAlchemyError,
      w\<lparr>profiles := flush E (profiles w)
           (pending w @ [\<lparr>p_id = None, p_user_id = uid, p_first_name = fn, p_last_name = ln,
                p_gender = g, p_date_of_birth = dob, p_info = i, p_avatar = k\<rparr>]),
        pending := [], trace := trace w @ [Add, Commit, Refresh, Rollback]\<rparr>)"
  using assms
  by (simp add: create_profile_def db_add_def db_commit_def db_refresh_def db_rollback_def
      log_event_def)

lemma create_profile_ok:
  assumes "\<not> commit_raises E" and "\<not> refresh_raises E"
  shows "create_profile E uid fn ln g dob i k w =
     (Inr \<lparr>p_id = Some (assign_id E (flush E (profiles w) (pending w))), p_user_id = uid,
           p_first_name = fn, p_last_name = ln, p_gender = g, p_date_of_birth = dob,
           p_info = i, p_avatar = k\<rparr>,
      w\<lparr>profiles := flush E (profiles w)
           (pending w @ [\<lparr>p_id = None, p_user_id = uid, p_first_name = fn, p_last_name = ln,
                p_gender = g, p_date_of_birth = dob, p_info = i, p_avatar = k\<rparr>]),
        pending := [], trace := trace w @ [Add, Commit, Refresh]\<rparr>)"
  using assms
  by (simp add: create_profile_def db_add_def db_commit_def db_refresh_def
      log_event_def flush_append length_flush nth_append)


lemma filter_absent:
  "uid \<notin> p_user_id ` set rows \<Longrightarrow> filter (\<lambda>p. p_user_id p = uid) rows = []"
  by (induction rows) auto

lemma filter_unique:
  assumes "distinct (map p_user_id rows)" and "uid \<in> p_user_id ` set rows"
  shows "\<exists>p. filter (\<lambda>p. p_user_id p = uid) rows = [p]"
  using assms
proof (induction rows)
  case Nil
  then show ?case by simp
next
  case (Cons r rows)
  show ?case
  proof (cases "p_user_id r = uid")
    case True
    with Cons.prems have "uid \<notin> p_user_id ` set rows" by auto
    with True show ?thesis by (simp add: filter_absent)
  next
    case False
    with Cons show ?thesis by auto
  qed
qed


lemma scalar_unique:
  assumes "one_profile_per_user rows" and "uid \<in> p_user_id ` set rows"
  shows "\<exists>p. scalar_one_or_none (filter (\<lambda>p. p_user_id p = uid) rows) = Inr (Some p)"
proof -
  from filter_unique assms obtain p where "filter (\<lambda>p. p_user_id p = uid) rows = [p]"
    unfolding one_profile_per_user_def by blast
  then show ?thesis by (simp add: scalar_one_or_none_def)
qed

lemma scalar_absent:
  "uid \<notin> p_user_id ` set rows \<Longrightarrow>
     scalar_one_or_none (filter (\<lambda>p. p_user_id p = uid) rows) = Inr None"
  by (simp add: filter_absent scalar_one_or_none_def)

lemmas handler_defs =
  create_user_profile_def upload_file_def get_user_by_id_def log_event_def acting_user_def
  unauthorized_def forbidden_def conflict_def upload_error_def Let_def

lemma handler_refines_pipeline:
  assumes inv: "one_profile_per_user (profiles w)"
  shows "case spec_run (spec_failure E uid data payload w) (spec_events E uid data payload)
               spec_steps of
           (Some f, es) \<Rightarrow>
             fst (create_user_profile E uid data payload w) = Inl f
             \<and> trace (snd (create_user_profile E uid data payload w)) = trace w @ es
         | (None, es) \<Rightarrow>
             (\<exists>profile. fst (create_user_profile E uid data payload w) = Inr profile
                \<and> p_avatar profile = get_file_url E (avatar_key_of uid))
             \<and> trace (snd (create_user_profile E uid data payload w))
                 = trace w @ es @ [GetFileUrl (avatar_key_of uid)]"
proof (cases "uid \<in> p_user_id ` set (profiles w)")
  case True
  from scalar_unique [OF inv True] obtain p where
    "scalar_one_or_none (filter (\<lambda>p. p_user_id p = uid) (profiles w)) = Inr (Some p)" ..
  with True show ?thesis
    by (simp add: spec_steps_def handler_defs split: option.splits bool.splits)
next
  case False
  note sc = scalar_absent [OF False]
  show ?thesis
  proof (cases "commit_raises E")
    case True
    with False sc show ?thesis
      by (simp add: spec_steps_def handler_defs create_profile_commit_raises
          split: option.splits bool.splits)
  next
    case nc: False
    show ?thesis
    proof (cases "refresh_raises E")
      case True
      with nc False sc show ?thesis
        by (simp add: spec_steps_def handler_defs create_profile_refresh_raises
            split: option.splits bool.splits)
    next
      case False
      with nc \<open>uid \<notin> p_user_id ` set (profiles w)\<close> sc show ?thesis
        by (simp add: spec_steps_def handler_defs create_profile_ok
            split: option.splits bool.splits)
    qed
  qed
qed


lemma as_form_Inl:
  assumes "as_form E fn ln g dob i av = Inl f"
  shows "\<exists>errs. errs \<noteq> [] \<and> f = HTTPException 422 (Errors errs)"
  using assms unfolding as_form_def Let_def by (auto split: if_splits)

lemma as_form_Inr:
  assumes "as_form E fn ln g dob i av = Inr data"
  shows "data = \<lparr>first_name = fn, last_name = ln, gender = g, date_of_birth = dob,
                  info = i, avatar = av\<rparr>"
    and "validate_image E av = None"
  using assms unfolding as_form_def Let_def
  by (auto simp: field_errors_def split: if_splits option.splits)

lemma post_form_failure:
  assumes "as_form E (form_first_name req) (form_last_name req) (form_gender req)
             (form_date_of_birth req) (form_info req) (form_avatar req) = Inl f"
  shows "\<exists>errs. errs \<noteq> [] \<and> post_user_profile E req w = (Error 422 (Errors errs), w)"
proof -
  from as_form_Inl [OF assms] obtain errs where "errs \<noteq> []"
    and "f = HTTPException 422 (Errors errs)" by blast
  with assms show ?thesis by (simp add: post_user_profile_def)
qed

lemma post_handler:
  assumes "as_form E (form_first_name req) (form_last_name req) (form_gender req)
             (form_date_of_birth req) (form_info req) (form_avatar req) = Inr data"
    and "get_current_user_payload E (authorization req) = Inr payload"
  shows "post_user_profile E req w =
     (case create_user_profile E (path_user_id req) data payload w of
        (Inl f, w') \<Rightarrow> (failure_response f, w')
      | (Inr profile, w') \<Rightarrow> (serialize_response profile, w'))"
  using assms by (simp add: post_user_profile_def)

lemma avatar_key_42: "avatar_key_of 42 = ''avatars/42_avatar.jpg''"
  by (simp add: avatar_key_of_def str_int_def str_nat.simps)

lemma avatar_key_8: "avatar_key_of 8 = ''avatars/8_avatar.jpg''"
  by (simp add: avatar_key_of_def str_int_def str_nat.simps)

lemma lower_ann: "py_lower ''Ann'' = ''ann''"
  by code_simp

lemma lower_lee: "py_lower ''LEE'' = ''lee''"
  by code_simp

lemma strip_hello: "py_strip ''  hello  '' = ''hello''"
  by (simp add: py_strip_def py_isspace_def)

lemma sample_inv: "one_profile_per_user (profiles sample_world)"
  by (simp add: one_profile_per_user_def sample_world_def)

text \<open>
  Claim C1. A form that fails validation ends the request with 422 and the state
  untouched. The handler itself behaves as the pipeline of the specification run in
  its order: the first failing step gives the failure of the request (422, 500, 401, 403,
  400, 401, or the persistence error, which is raised and not caught), the calls made are
  those of the steps up to and including the failing one and no others, and when no step
  fails the profile returned carries the URL resolved from the key
  \<open>avatars/{user_id}_avatar.jpg\<close>.
\<close>

theorem handler_pipeline:
  "(as_form E (form_first_name req) (form_last_name req) (form_gender req)
       (form_date_of_birth req) (form_info req) (form_avatar req) = Inl f
     \<longrightarrow> (\<exists>errs. post_user_profile E req w = (Error 422 (Errors errs), w)))
   \<and> (one_profile_per_user (profiles w) \<longrightarrow>
       (case spec_run (spec_failure E uid data payload w) (spec_events E uid data payload)
               spec_steps of
          (Some f, es) \<Rightarrow>
            fst (create_user_profile E uid data payload w) = Inl f
            \<and> trace (snd (create_user_profile E uid data payload w)) = trace w @ es
        | (None, es) \<Rightarrow>
            (\<exists>profile. fst (create_user_profile E uid data payload w) = Inr profile
               \<and> p_avatar profile = get_file_url E (avatar_key_of uid))
            \<and> trace (snd (create_user_profile E uid data payload w))
                = trace w @ es @ [GetFileUrl (avatar_key_of uid)]))"
  using post_form_failure [of E req _ w] handler_refines_pipeline [of w E uid data payload]
  by blast

theorem handler_pipeline_witness:
  "one_profile_per_user (profiles sample_world)
   \<and> (\<exists>profile. fst (create_user_profile sample_env 42 sample_data [''user_id'' \<mapsto> 42] sample_world)
                   = Inr profile
         \<and> p_avatar profile = ''https://cdn.test/avatars/42_avatar.jpg'')
   \<and> trace (snd (create_user_profile sample_env 42 sample_data [''user_id'' \<mapsto> 42] sample_world))
       = [S3Upload ''avatars/42_avatar.jpg'' ''JFIF'', SelectUser (Some 42), SelectProfile 42,
          SelectUser (Some 42), Add, Commit, Refresh, GetFileUrl ''avatars/42_avatar.jpg'']
   \<and> fst (create_user_profile sample_env 8 sample_data [''user_id'' \<mapsto> 42] sample_world)
       = Inl forbidden
   \<and> trace (snd (create_user_profile sample_env 8 sample_data [''user_id'' \<mapsto> 42] sample_world))
       = [S3Upload ''avatars/8_avatar.jpg'' ''JFIF'', SelectUser (Some 42)]
   \<and> as_form sample_env [] ''LEE'' ''woman'' (Date 1990 1 2) ''hello'' sample_avatar
       = Inl (HTTPException 422 (Errors [(''first_name'', ''Name is empty'')]))
   \<and> (\<exists>errs. post_user_profile sample_env (sample_request\<lparr>form_first_name := [], form_info := ''hello''\<rparr>)
                sample_world = (Error 422 (Errors errs), sample_world))"
proof -
  have form: "as_form sample_env [] ''LEE'' ''woman'' (Date 1990 1 2) ''hello'' sample_avatar
       = Inl (HTTPException 422 (Errors [(''first_name'', ''Name is empty'')]))"
    by (simp add: as_form_def sample_env_def sample_avatar_def field_errors_def info_errors_def
        validate_info_def py_strip_def py_isspace_def)
  have a: "(\<exists>profile. fst (create_user_profile sample_env 42 sample_data [''user_id'' \<mapsto> 42] sample_world)
                   = Inr profile
         \<and> p_avatar profile = ''https://cdn.test/avatars/42_avatar.jpg'')
   \<and> trace (snd (create_user_profile sample_env 42 sample_data [''user_id'' \<mapsto> 42] sample_world))
       = [S3Upload ''avatars/42_avatar.jpg'' ''JFIF'', SelectUser (Some 42), SelectProfile 42,
          SelectUser (Some 42), Add, Commit, Refresh, GetFileUrl ''avatars/42_avatar.jpg'']"
    using handler_pipeline [of sample_env sample_request undefined sample_world 42 sample_data
        "[''user_id'' \<mapsto> 42]"] sample_inv
    by (simp add: spec_steps_def acting_user_def avatar_key_42 sample_env_def sample_world_def
        sample_data_def sample_avatar_def sample_profile_def)
  have b: "fst (create_user_profile sample_env 8 sample_data [''user_id'' \<mapsto> 42] sample_world)
       = Inl forbidden
   \<and> trace (snd (create_user_profile sample_env 8 sample_data [''user_id'' \<mapsto> 42] sample_world))
       = [S3Upload ''avatars/8_avatar.jpg'' ''JFIF'', SelectUser (Some 42)]"
    using handler_pipeline [of sample_env sample_request undefined sample_world 8 sample_data
        "[''user_id'' \<mapsto> 42]"] sample_inv
    by (simp add: spec_steps_def acting_user_def avatar_key_8 sample_env_def sample_world_def
        sample_data_def sample_avatar_def sample_profile_def)
  have c: "\<exists>errs. post_user_profile sample_env (sample_request\<lparr>form_first_name := [], form_info := ''hello''\<rparr>)
                sample_world = (Error 422 (Errors errs), sample_world)"
    using handler_pipeline [of sample_env "sample_request\<lparr>form_first_name := [], form_info := ''hello''\<rparr>"
        "HTTPException 422 (Errors [(''first_name'', ''Name is empty'')])" sample_world 42
        sample_data "[''user_id'' \<mapsto> 42]"] form
    by (simp add: sample_request_def)
  from sample_inv a b form c show ?thesis by blast
qed

section \<open>Persistence failure\<close>

text \<open>
  Claim C7. When the commit raises the storage-layer error, \<open>create_profile\<close> rolls the
  session back and raises the same error again: its result is the error, the calls are
  add, commit, rollback in that order, the user and profile tables are as they were, and
  nothing is left pending in the session.
\<close>

theorem commit_failure_rolls_back:
  assumes "commit_raises E"
  shows "fst (create_profile E uid fn ln g dob i k w) = Inl SQLAlchemyError
       \<and> users (snd (create_profile E uid fn ln g dob i k w)) = users w
       \<and> profiles (snd (create_profile E uid fn ln g dob i k w)) = profiles w
       \<and> pending (snd (create_profile E uid fn ln g dob i k w)) = []
       \<and> trace (snd (create_profile E uid fn ln g dob i k w)) = trace w @ [Add, Commit, Rollback]"
  by (simp add: create_profile_commit_raises [OF assms])

theorem commit_failure_rolls_back_witness:
  "commit_raises (sample_env\<lparr>commit_raises := True\<rparr>)
   \<and> fst (create_profile (sample_env\<lparr>commit_raises := True\<rparr>) 42 ''ann'' ''lee'' ''woman''
            (Date 1990 1 2) ''hello'' ''avatars/42_avatar.jpg'' sample_world) = Inl SQLAlchemyError
   \<and> profiles (snd (create_profile (sample_env\<lparr>commit_raises := True\<rparr>) 42 ''ann'' ''lee'' ''woman''
            (Date 1990 1 2) ''hello'' ''avatars/42_avatar.jpg'' sample_world)) = [sample_profile]
   \<and> pending (snd (create_profile (sample_env\<lparr>commit_raises := True\<rparr>) 42 ''ann'' ''lee'' ''woman''
            (Date 1990 1 2) ''hello'' ''avatars/42_avatar.jpg'' sample_world)) = []
   \<and> trace (snd (create_profile (sample_env\<lparr>commit_raises := True\<rparr>) 42 ''ann'' ''lee'' ''woman''
            (Date 1990 1 2) ''hello'' ''avatars/42_avatar.jpg'' sample_world)) = [Add, Commit, Rollback]"
proof -
  have h: "commit_raises (sample_env\<lparr>commit_raises := True\<rparr>)" by simp
  have p: "profiles sample_world = [sample_profile]" and t: "trace sample_world = []"
    by (simp_all add: sample_world_def)
  from commit_failure_rolls_back [OF h, of 42 "''ann''" "''lee''" "''woman''" "Date 1990 1 2"
      "''hello''" "''avatars/42_avatar.jpg''" sample_world] h p t
  show ?thesis by simp
qed

section \<open>The form: properties\<close>




section \<open>Authentication and the order of the dependencies\<close>

lemma route_extracted: "route_user_profile E (raw_of req) w = post_user_profile E req w"
  by (simp add: route_user_profile_def solve_data_def form_values_def raw_of_def
      post_user_profile_def split: sum.splits)

lemma bad_header_401:
  assumes "h = None \<or> h = Some []
         \<or> (\<exists>s. h = Some s \<and> \<not> py_startswith s ''Bearer '')
         \<or> (\<exists>rest cause. h = Some (''Bearer '' @ rest)
               \<and> decode_access_token E (bearer_token rest) = Inl cause)"
  shows "\<exists>m. get_current_user_payload E h = Inl (HTTPException 401 (Msg m))"
  using assms
proof (elim disjE exE conjE)
  fix rest cause
  assume "h = Some (''Bearer '' @ rest)"
    and "decode_access_token E (bearer_token rest) = Inl cause"
  then show ?thesis using payload_bearer [OF refl, of E rest] by simp
qed (auto simp: get_current_user_payload_def)

lemma sample_form:
  "as_form sample_env ''Ann'' ''LEE'' ''woman'' (Date 1990 1 2) ''  hello  '' sample_avatar
     = Inr sample_data"
  by (simp add: as_form_def sample_env_def sample_avatar_def sample_data_def field_errors_def
      info_errors_def validate_info_def py_strip_def py_isspace_def)

text \<open>
  A request with no \<open>Authorization\<close> header and a blank \<open>info\<close> field is answered 422 by the
  form, not 401: the form is validated before the authenticator runs.
\<close>

theorem auth_first_counterexample:
  "authorization (sample_request\<lparr>authorization := None, form_info := ''  ''\<rparr>) = None
   \<and> fst (post_user_profile sample_env
            (sample_request\<lparr>authorization := None, form_info := ''  ''\<rparr>) sample_world)
       = Error 422 (Errors [(''info'', ''Info field cannot be empty or contain only spaces.'')])
   \<and> fst (route_user_profile sample_env
            (raw_of (sample_request\<lparr>authorization := None, form_info := ''  ''\<rparr>)) sample_world)
       = Error 422 (Errors [(''info'', ''Info field cannot be empty or contain only spaces.'')])"
  by (simp add: route_extracted post_user_profile_def as_form_def sample_request_def
      sample_env_def sample_avatar_def field_errors_def info_errors_def validate_info_def
      py_strip_def py_isspace_def)

text \<open>
  Claim C2, amended. For a request, read as form data, whose \<open>Authorization\<close> header is
  missing, empty, not of the form \<open>Bearer <token>\<close>, or carries a token that fails to
  decode, the response is 401 and the state is untouched, so no avatar is uploaded and no
  database call is made, with one exception: when all six form values were extracted and
  fail the validation of the form, the response is the form's 422, since the form is
  validated before the authenticator runs. A request with a form value missing or
  ill-typed, for which the form is not validated, is answered 401.
\<close>

theorem auth_failure_after_form:
  assumes "raw_authorization raw = None \<or> raw_authorization raw = Some []
         \<or> (\<exists>s. raw_authorization raw = Some s \<and> \<not> py_startswith s ''Bearer '')
         \<or> (\<exists>rest cause. raw_authorization raw = Some (''Bearer '' @ rest)
               \<and> decode_access_token E (bearer_token rest) = Inl cause)"
  shows "case form_values raw of
           None \<Rightarrow> \<exists>m. route_user_profile E raw w = (Error 401 (Msg m), w)
         | Some (fn, ln, g, dob, i, av) \<Rightarrow>
             (case as_form E fn ln g dob i av of
                Inl f \<Rightarrow> \<exists>errs. route_user_profile E raw w = (Error 422 (Errors errs), w)
              | Inr data \<Rightarrow> \<exists>m. route_user_profile E raw w = (Error 401 (Msg m), w))"
proof -
  from bad_header_401 [OF assms] obtain m where
    m: "get_current_user_payload E (raw_authorization raw) = Inl (HTTPException 401 (Msg m))" ..
  show ?thesis
  proof (cases "form_values raw")
    case None
    with m show ?thesis by (simp add: route_user_profile_def solve_data_def)
  next
    case (Some vs)
    obtain fn ln g dob i av where vs: "vs = (fn, ln, g, dob, i, av)"
      by (cases vs) auto
    show ?thesis
    proof (cases "as_form E fn ln g dob i av")
      case (Inl f)
      from as_form_Inl [OF this] obtain errs where "f = HTTPException 422 (Errors errs)"
        by blast
      with Inl Some vs show ?thesis by (simp add: route_user_profile_def solve_data_def)
    next
      case (Inr data)
      with m Some vs show ?thesis by (simp add: route_user_profile_def solve_data_def)
    qed
  qed
qed

theorem auth_failure_after_form_witness:
  "raw_authorization (raw_of (sample_request\<lparr>authorization := Some ''Token abc''\<rparr>))
     = Some ''Token abc''
   \<and> \<not> py_startswith ''Token abc'' ''Bearer ''
   \<and> (\<exists>m. route_user_profile sample_env
             (raw_of (sample_request\<lparr>authorization := Some ''Token abc''\<rparr>)) sample_world
           = (Error 401 (Msg m), sample_world))
   \<and> raw_authorization ((raw_of sample_request)\<lparr>raw_authorization := None, raw_info := Missing\<rparr>)
     = None
   \<and> (\<exists>m. route_user_profile sample_env
             ((raw_of sample_request)\<lparr>raw_authorization := None, raw_info := Missing\<rparr>)
             sample_world
           = (Error 401 (Msg m), sample_world))"
proof -
  let ?r1 = "raw_of (sample_request\<lparr>authorization := Some ''Token abc''\<rparr>)"
  let ?r2 = "(raw_of sample_request)\<lparr>raw_authorization := None, raw_info := Missing\<rparr>"
  have a: "\<not> py_startswith ''Token abc'' ''Bearer ''"
    by (simp add: py_startswith_def)
  have b: "raw_authorization ?r1 = Some ''Token abc''"
    by (simp add: raw_of_def)
  from a b have h1: "raw_authorization ?r1 = None \<or> raw_authorization ?r1 = Some []
         \<or> (\<exists>s. raw_authorization ?r1 = Some s \<and> \<not> py_startswith s ''Bearer '')
         \<or> (\<exists>rest cause. raw_authorization ?r1 = Some (''Bearer '' @ rest)
               \<and> decode_access_token sample_env (bearer_token rest) = Inl cause)"
    by blast
  have v1: "form_values ?r1
      = Some (''Ann'', ''LEE'', ''woman'', Date 1990 1 2, ''  hello  '', sample_avatar)"
    by (simp add: form_values_def raw_of_def sample_request_def)
  from auth_failure_after_form [OF h1, of sample_world] v1 sample_form
  have 1: "\<exists>m. route_user_profile sample_env ?r1 sample_world = (Error 401 (Msg m), sample_world)"
    by simp
  have c: "raw_authorization ?r2 = None" by simp
  then have h2: "raw_authorization ?r2 = None \<or> raw_authorization ?r2 = Some []
         \<or> (\<exists>s. raw_authorization ?r2 = Some s \<and> \<not> py_startswith s ''Bearer '')
         \<or> (\<exists>rest cause. raw_authorization ?r2 = Some (''Bearer '' @ rest)
               \<and> decode_access_token sample_env (bearer_token rest) = Inl cause)"
    by blast
  have v2: "form_values ?r2 = None"
    by (simp add: form_values_def raw_of_def)
  from auth_failure_after_form [OF h2, of sample_world] v2
  have 2: "\<exists>m. route_user_profile sample_env ?r2 sample_world = (Error 401 (Msg m), sample_world)"
    by simp
  from a b 1 c 2 show ?thesis by blast
qed

lemma post_handler_fst:
  assumes "as_form E (form_first_name req) (form_last_name req) (form_gender req)
             (form_date_of_birth req) (form_info req) (form_avatar req) = Inr data"
    and "get_current_user_payload E (authorization req) = Inr payload"
  shows "fst (post_user_profile E req w) =
     (case fst (create_user_profile E (path_user_id req) data payload w) of
        Inl f \<Rightarrow> failure_response f
      | Inr profile \<Rightarrow> serialize_response profile)"
    and "snd (post_user_profile E req w)
           = snd (create_user_profile E (path_user_id req) data payload w)"
  by (simp_all add: post_handler [OF assms] split: prod.splits sum.splits)

section \<open>Authorization\<close>

text \<open>
  User 42, not an administrator, posts for user 8 with an invalid gender: the response is
  422, not 403.
\<close>

theorem forbidden_any_fields_counterexample:
  "decode_access_token sample_env ''t42'' = Inr [''user_id'' \<mapsto> 42, ''exp'' \<mapsto> 1999999999]
   \<and> users sample_world 42 = Some \<lparr>u_is_active = True, u_group_id = 1\<rparr>
   \<and> path_user_id (sample_request\<lparr>path_user_id := 8, form_gender := ''x''\<rparr>) = 8
   \<and> fst (post_user_profile sample_env (sample_request\<lparr>path_user_id := 8, form_gender := ''x''\<rparr>)
            sample_world)
       = Error 422 (Errors [(''gender'', ''Bad gender'')])"
  by (simp add: post_user_profile_def as_form_def sample_request_def sample_env_def
      sample_decode_def sample_world_def sample_avatar_def field_errors_def info_errors_def
      validate_info_def py_strip_def py_isspace_def)

text \<open>
  Claim C3, amended. When the form fields pass validation, the token is accepted and the
  avatar upload succeeds, a request whose acting user exists, differs from the target user
  and has a \<open>group_id\<close> other than 3 is answered 403.
\<close>

theorem forbidden_after_validation_and_upload:
  assumes "as_form E (form_first_name req) (form_last_name req) (form_gender req)
             (form_date_of_birth req) (form_info req) (form_avatar req) = Inr data"
    and "get_current_user_payload E (authorization req) = Inr payload"
    and "\<not> upload_raises E (avatar_key_of (path_user_id req)) (content (form_avatar req))"
    and "payload ''user_id'' = Some i"
    and "users w i = Some u"
    and "i \<noteq> path_user_id req"
    and "u_group_id u \<noteq> 3"
  shows "fst (post_user_profile E req w)
           = Error 403 (Msg (''You don'' @ [CHR 0x27] @ ''t have permission to edit this profile.''))"
proof -
  note form = as_form_Inr [OF assms(1)]
  have "create_user_profile E (path_user_id req) data payload w =
      (Inl forbidden,
       w\<lparr>s3_objects := (s3_objects w)(avatar_key_of (path_user_id req) \<mapsto> content (form_avatar req)),
         trace := trace w @ [S3Upload (avatar_key_of (path_user_id req)) (content (form_avatar req)),
                             SelectUser (Some i)]\<rparr>)"
    using assms(3-7) form by (simp add: handler_defs)
  then show ?thesis
    by (simp add: post_handler_fst(1) [OF assms(1,2)] forbidden_def)
qed

lemma sample_payload_42:
  "get_current_user_payload sample_env (Some ''Bearer t42'')
     = Inr [''user_id'' \<mapsto> 42, ''exp'' \<mapsto> 1999999999]"
  using payload_bearer [of "''Bearer t42''" "''t42''" sample_env]
  by (simp add: bearer_token_def sample_env_def sample_decode_def)

theorem forbidden_after_validation_and_upload_witness:
  "as_form sample_env ''Ann'' ''LEE'' ''woman'' (Date 1990 1 2) ''  hello  '' sample_avatar
     = Inr sample_data
   \<and> get_current_user_payload sample_env (Some ''Bearer t42'')
     = Inr [''user_id'' \<mapsto> 42, ''exp'' \<mapsto> 1999999999]
   \<and> users sample_world 42 = Some \<lparr>u_is_active = True, u_group_id = 1\<rparr>
   \<and> fst (post_user_profile sample_env (sample_request\<lparr>path_user_id := 8\<rparr>) sample_world)
       = Error 403 (Msg (''You don'' @ [CHR 0x27] @ ''t have permission to edit this profile.''))"
proof -
  let ?req = "sample_request\<lparr>path_user_id := 8\<rparr>"
  have f: "as_form sample_env (form_first_name ?req) (form_last_name ?req) (form_gender ?req)
             (form_date_of_birth ?req) (form_info ?req) (form_avatar ?req) = Inr sample_data"
    using sample_form by (simp add: sample_request_def)
  have p: "get_current_user_payload sample_env (authorization ?req)
      = Inr [''user_id'' \<mapsto> 42, ''exp'' \<mapsto> 1999999999]"
    using sample_payload_42 by (simp add: sample_request_def)
  have u: "\<not> upload_raises sample_env (avatar_key_of (path_user_id ?req)) (content (form_avatar ?req))"
    by (simp add: sample_env_def)
  have i: "[''user_id'' \<mapsto> 42, ''exp'' \<mapsto> 1999999999] ''user_id'' = Some (42::int)"
    by simp
  have w: "users sample_world 42 = Some \<lparr>u_is_active = True, u_group_id = 1\<rparr>"
    by (simp add: sample_world_def)
  have n: "(42::int) \<noteq> path_user_id ?req" by simp
  have g: "u_group_id \<lparr>u_is_active = True, u_group_id = 1\<rparr> \<noteq> 3" by simp
  from forbidden_after_validation_and_upload [OF f p u i w n g] sample_form sample_payload_42 w
  show ?thesis by blast
qed

section \<open>The successful request\<close>

text \<open>
  A request valid in every respect, sent while the storage client raises on upload, is
  answered 500.
\<close>

theorem valid_request_created_counterexample:
  "as_form failing_s3_env ''Ann'' ''LEE'' ''woman'' (Date 1990 1 2) ''  hello  '' sample_avatar
     = Inr sample_data
   \<and> decode_access_token failing_s3_env ''t42'' = Inr [''user_id'' \<mapsto> 42, ''exp'' \<mapsto> 1999999999]
   \<and> users sample_world 42 = Some \<lparr>u_is_active = True, u_group_id = 1\<rparr>
   \<and> filter (\<lambda>p. p_user_id p = 42) (profiles sample_world) = []
   \<and> fst (post_user_profile failing_s3_env sample_request sample_world)
       = Error 500 (Msg ''Failed to upload avatar. Please try again later.'')"
proof -
  have f: "as_form failing_s3_env ''Ann'' ''LEE'' ''woman'' (Date 1990 1 2) ''  hello  '' sample_avatar
     = Inr sample_data"
    by (simp add: failing_s3_env_def as_form_def sample_env_def sample_avatar_def sample_data_def
        field_errors_def info_errors_def validate_info_def py_strip_def py_isspace_def)
  have p: "get_current_user_payload failing_s3_env (Some ''Bearer t42'')
      = Inr [''user_id'' \<mapsto> 42, ''exp'' \<mapsto> 1999999999]"
    using payload_bearer [of "''Bearer t42''" "''t42''" failing_s3_env]
    by (simp add: bearer_token_def failing_s3_env_def sample_env_def sample_decode_def)
  have h: "fst (create_user_profile failing_s3_env 42 sample_data
                  [''user_id'' \<mapsto> 42, ''exp'' \<mapsto> 1999999999] sample_world)
      = Inl upload_error"
    by (simp add: handler_defs failing_s3_env_def sample_env_def sample_data_def sample_avatar_def)
  have "fst (post_user_profile failing_s3_env sample_request sample_world)
       = Error 500 (Msg ''Failed to upload avatar. Please try again later.'')"
    using post_handler_fst(1) [of failing_s3_env sample_request sample_data
        "[''user_id'' \<mapsto> 42, ''exp'' \<mapsto> 1999999999]" sample_world] f p h
    by (simp add: sample_request_def upload_error_def)
  moreover have "decode_access_token failing_s3_env ''t42''
      = Inr [''user_id'' \<mapsto> 42, ''exp'' \<mapsto> 1999999999]"
    by (simp add: failing_s3_env_def sample_env_def sample_decode_def)
  moreover have "users sample_world 42 = Some \<lparr>u_is_active = True, u_group_id = 1\<rparr>"
    and "filter (\<lambda>p. p_user_id p = 42) (profiles sample_world) = []"
    by (simp_all add: sample_world_def sample_profile_def)
  ultimately show ?thesis using f by blast
qed

text \<open>
  Claim C4, amended. When the form fields and the image pass validation, the token decodes
  to the id of the target user, the target user is active and has no profile, and the
  upload, the commit and the refresh do not raise, the response is 201: its body has the
  id given by the database, the submitted gender and date of birth, the names in lower
  case, \<open>info\<close> stripped, and as avatar the URL resolved from the key
  \<open>avatars/{user_id}_avatar.jpg\<close>.
\<close>

theorem valid_request_created:
  assumes "as_form E (form_first_name req) (form_last_name req) (form_gender req)
             (form_date_of_birth req) (form_info req) (form_avatar req) = Inr data"
    and "authorization req = Some (''Bearer '' @ rest)"
    and "decode_access_token E (bearer_token rest) = Inr payload"
    and "payload ''user_id'' = Some (path_user_id req)"
    and "users w (path_user_id req) = Some u"
    and "u_is_active u"
    and "path_user_id req \<notin> p_user_id ` set (profiles w)"
    and "\<not> upload_raises E (avatar_key_of (path_user_id req)) (content (form_avatar req))"
    and "\<not> commit_raises E"
    and "\<not> refresh_raises E"
  shows "fst (post_user_profile E req w) =
           Created \<lparr>r_id = assign_id E (flush E (profiles w) (pending w)),
                    r_user_id = path_user_id req,
                    r_first_name = py_lower (form_first_name req),
                    r_last_name = py_lower (form_last_name req),
                    r_gender = form_gender req,
                    r_date_of_birth = form_date_of_birth req,
                    r_info = py_strip (form_info req),
                    r_avatar = get_file_url E (avatar_key_of (path_user_id req))\<rparr>
         \<and> status_code (fst (post_user_profile E req w)) = 201"
proof -
  note form = as_form_Inr [OF assms(1)]
  have auth: "get_current_user_payload E (authorization req) = Inr payload"
    using payload_bearer [OF refl, of E rest] assms(2,3) by simp
  have "fst (create_user_profile E (path_user_id req) data payload w) =
      Inr \<lparr>p_id = Some (assign_id E (flush E (profiles w) (pending w))),
           p_user_id = path_user_id req,
           p_first_name = py_lower (form_first_name req),
           p_last_name = py_lower (form_last_name req),
           p_gender = form_gender req,
           p_date_of_birth = form_date_of_birth req,
           p_info = py_strip (form_info req),
           p_avatar = get_file_url E (avatar_key_of (path_user_id req))\<rparr>"
    using assms(4-8) form scalar_absent [OF assms(7)]
    by (simp add: handler_defs create_profile_ok [OF assms(9,10)])
  then show ?thesis
    by (simp add: post_handler_fst(1) [OF assms(1) auth] serialize_response_def)
qed

theorem valid_request_created_witness:
  "as_form sample_env ''Ann'' ''LEE'' ''woman'' (Date 1990 1 2) ''  hello  '' sample_avatar
     = Inr sample_data
   \<and> decode_access_token sample_env (bearer_token ''t42'')
     = Inr [''user_id'' \<mapsto> 42, ''exp'' \<mapsto> 1999999999]
   \<and> users sample_world 42 = Some \<lparr>u_is_active = True, u_group_id = 1\<rparr>
   \<and> 42 \<notin> p_user_id ` set (profiles sample_world)
   \<and> fst (post_user_profile sample_env sample_request sample_world) =
       Created \<lparr>r_id = 2, r_user_id = 42, r_first_name = ''ann'', r_last_name = ''lee'',
                r_gender = ''woman'', r_date_of_birth = Date 1990 1 2, r_info = ''hello'',
                r_avatar = ''https://cdn.test/avatars/42_avatar.jpg''\<rparr>
   \<and> status_code (fst (post_user_profile sample_env sample_request sample_world)) = 201"
proof -
  let ?payload = "[''user_id'' \<mapsto> 42::int, ''exp'' \<mapsto> 1999999999]"
  let ?u = "\<lparr>u_is_active = True, u_group_id = 1\<rparr>"
  have f: "as_form sample_env (form_first_name sample_request) (form_last_name sample_request)
      (form_gender sample_request) (form_date_of_birth sample_request)
      (form_info sample_request) (form_avatar sample_request) = Inr sample_data"
    using sample_form by (simp add: sample_request_def)
  have a: "authorization sample_request = Some (''Bearer '' @ ''t42'')"
    by (simp add: sample_request_def)
  have d: "decode_access_token sample_env (bearer_token ''t42'') = Inr ?payload"
    by (simp add: bearer_token_def sample_env_def sample_decode_def)
  have i: "?payload ''user_id'' = Some (path_user_id sample_request)"
    by (simp add: sample_request_def)
  have u: "users sample_world (path_user_id sample_request) = Some ?u"
    by (simp add: sample_world_def sample_request_def)
  have act: "u_is_active ?u" by simp
  have n: "path_user_id sample_request \<notin> p_user_id ` set (profiles sample_world)"
    by (simp add: sample_world_def sample_request_def sample_profile_def)
  have up: "\<not> upload_raises sample_env (avatar_key_of (path_user_id sample_request))
      (content (form_avatar sample_request))"
    by (simp add: sample_env_def)
  have c: "\<not> commit_raises sample_env" and r: "\<not> refresh_raises sample_env"
    by (simp_all add: sample_env_def)
  have id: "assign_id sample_env (flush sample_env (profiles sample_world) (pending sample_world)) = 2"
    by (simp add: sample_env_def sample_world_def)
  have url: "get_file_url sample_env (avatar_key_of 42) = ''https://cdn.test/avatars/42_avatar.jpg''"
    by (simp add: sample_env_def avatar_key_42)
  have fields: "path_user_id sample_request = 42"
    "py_lower (form_first_name sample_request) = ''ann''"
    "py_lower (form_last_name sample_request) = ''lee''"
    "form_gender sample_request = ''woman''"
    "form_date_of_birth sample_request = Date 1990 1 2"
    "py_strip (form_info sample_request) = ''hello''"
    by (simp_all add: sample_request_def lower_ann lower_lee strip_hello)
  from valid_request_created [OF f a d i u act n up c r]
  have "fst (post_user_profile sample_env sample_request sample_world) =
       Created \<lparr>r_id = 2, r_user_id = 42, r_first_name = ''ann'', r_last_name = ''lee'',
                r_gender = ''woman'', r_date_of_birth = Date 1990 1 2, r_info = ''hello'',
                r_avatar = ''https://cdn.test/avatars/42_avatar.jpg''\<rparr>
   \<and> status_code (fst (post_user_profile sample_env sample_request sample_world)) = 201"
    unfolding fields id url by simp
  moreover have "users sample_world 42 = Some ?u" and "42 \<notin> p_user_id ` set (profiles sample_world)"
    using u n by (simp_all add: sample_request_def)
  ultimately show ?thesis using sample_form d by blast
qed

section \<open>Claims without a user id\<close>

text \<open>
  A token that decodes to claims with no \<open>user_id\<close>, sent while the storage client raises
  on upload, is answered 500: the upload comes before the lookup of the acting user.
\<close>

theorem missing_user_id_counterexample:
  "decode_access_token failing_s3_env ''anon'' = Inr [''exp'' \<mapsto> 1999999999]
   \<and> [''exp'' \<mapsto> 1999999999::int] ''user_id'' = None
   \<and> fst (post_user_profile failing_s3_env (sample_request\<lparr>authorization := Some ''Bearer anon''\<rparr>)
            sample_world)
       = Error 500 (Msg ''Failed to upload avatar. Please try again later.'')"
proof -
  let ?req = "sample_request\<lparr>authorization := Some ''Bearer anon''\<rparr>"
  have f: "as_form failing_s3_env (form_first_name ?req) (form_last_name ?req) (form_gender ?req)
      (form_date_of_birth ?req) (form_info ?req) (form_avatar ?req) = Inr sample_data"
    by (simp add: failing_s3_env_def as_form_def sample_env_def sample_avatar_def sample_data_def
        sample_request_def field_errors_def info_errors_def validate_info_def py_strip_def
        py_isspace_def)
  have d: "decode_access_token failing_s3_env ''anon'' = Inr [''exp'' \<mapsto> 1999999999]"
    by (simp add: failing_s3_env_def sample_env_def sample_decode_def)
  have p: "get_current_user_payload failing_s3_env (authorization ?req)
      = Inr [''exp'' \<mapsto> 1999999999]"
    using payload_bearer [of "''Bearer anon''" "''anon''" failing_s3_env] d
    by (simp add: bearer_token_def)
  have h: "fst (create_user_profile failing_s3_env (path_user_id ?req) sample_data
                  [''exp'' \<mapsto> 1999999999] sample_world)
      = Inl upload_error"
    by (simp add: handler_defs failing_s3_env_def sample_env_def sample_data_def sample_avatar_def)
  have "fst (post_user_profile failing_s3_env ?req sample_world)
       = Error 500 (Msg ''Failed to upload avatar. Please try again later.'')"
    using post_handler_fst(1) [OF f p, of sample_world] h
    by (simp add: upload_error_def)
  with d show ?thesis by simp
qed

text \<open>
  Claim C10, amended. When the form fields pass validation and the avatar upload succeeds,
  a token that decodes to claims with no \<open>user_id\<close> entry does not crash the handler: after
  the upload the acting user is looked up with a null id, no user is found, the response
  is 401 with the detail \<open>User not found or not active.\<close>, and no profile is written.
\<close>

theorem missing_user_id_unauthorized:
  assumes "as_form E (form_first_name req) (form_last_name req) (form_gender req)
             (form_date_of_birth req) (form_info req) (form_avatar req) = Inr data"
    and "authorization req = Some (''Bearer '' @ rest)"
    and "decode_access_token E (bearer_token rest) = Inr payload"
    and "payload ''user_id'' = None"
    and "\<not> upload_raises E (avatar_key_of (path_user_id req)) (content (form_avatar req))"
  shows "fst (post_user_profile E req w) = Error 401 (Msg ''User not found or not active.'')
       \<and> trace (snd (post_user_profile E req w))
           = trace w @ [S3Upload (avatar_key_of (path_user_id req)) (content (form_avatar req)),
                        SelectUser None]
       \<and> profiles (snd (post_user_profile E req w)) = profiles w"
proof -
  note form = as_form_Inr [OF assms(1)]
  have auth: "get_current_user_payload E (authorization req) = Inr payload"
    using payload_bearer [OF refl, of E rest] assms(2,3) by simp
  have "create_user_profile E (path_user_id req) data payload w =
      (Inl unauthorized,
       w\<lparr>s3_objects := (s3_objects w)(avatar_key_of (path_user_id req) \<mapsto> content (form_avatar req)),
         trace := trace w @ [S3Upload (avatar_key_of (path_user_id req)) (content (form_avatar req)),
                             SelectUser None]\<rparr>)"
    using assms(4,5) form by (simp add: handler_defs)
  then show ?thesis
    by (simp add: post_handler_fst [OF assms(1) auth] unauthorized_def)
qed

theorem missing_user_id_unauthorized_witness:
  "decode_access_token sample_env (bearer_token ''anon'') = Inr [''exp'' \<mapsto> 1999999999]
   \<and> [''exp'' \<mapsto> 1999999999::int] ''user_id'' = None
   \<and> fst (post_user_profile sample_env (sample_request\<lparr>authorization := Some ''Bearer anon''\<rparr>)
            sample_world)
       = Error 401 (Msg ''User not found or not active.'')
   \<and> trace (snd (post_user_profile sample_env
                   (sample_request\<lparr>authorization := Some ''Bearer anon''\<rparr>) sample_world))
       = [S3Upload ''avatars/42_avatar.jpg'' ''JFIF'', SelectUser None]"
proof -
  let ?req = "sample_request\<lparr>authorization := Some ''Bearer anon''\<rparr>"
  have f: "as_form sample_env (form_first_name ?req) (form_last_name ?req) (form_gender ?req)
      (form_date_of_birth ?req) (form_info ?req) (form_avatar ?req) = Inr sample_data"
    using sample_form by (simp add: sample_request_def)
  have a: "authorization ?req = Some (''Bearer '' @ ''anon'')" by simp
  have d: "decode_access_token sample_env (bearer_token ''anon'') = Inr [''exp'' \<mapsto> 1999999999]"
    by (simp add: bearer_token_def sample_env_def sample_decode_def)
  have n: "[''exp'' \<mapsto> 1999999999::int] ''user_id'' = None" by simp
  have up: "\<not> upload_raises sample_env (avatar_key_of (path_user_id ?req)) (content (form_avatar ?req))"
    by (simp add: sample_env_def)
  have k: "avatar_key_of (path_user_id ?req) = ''avatars/42_avatar.jpg''"
    "content (form_avatar ?req) = ''JFIF''" "trace sample_world = []"
    by (simp_all add: sample_request_def avatar_key_42 sample_avatar_def sample_world_def)
  from missing_user_id_unauthorized [OF f a d n up, of sample_world]
  have "fst (post_user_profile sample_env ?req sample_world)
       = Error 401 (Msg ''User not found or not active.'')
   \<and> trace (snd (post_user_profile sample_env ?req sample_world))
       = [S3Upload ''avatars/42_avatar.jpg'' ''JFIF'', SelectUser None]"
    unfolding k by simp
  with d n show ?thesis by blast
qed

section \<open>One profile for a user\<close>















section \<open>The acting user's activity\<close>

text \<open>
  Claim C8. The \<open>is_active\<close> flag of the acting user is never read. When the acting user is
  not the target user, setting the flag to any value changes neither the result of the
  handler, nor the calls it makes, nor the profile table. And once the image and the
  upload have passed, an acting user that exists, active or not, is taken to the
  authorization step: 403 if it is neither the target user nor an administrator, and
  otherwise the handler goes on to the query for an existing profile.
\<close>

theorem acting_user_activity_not_checked:
  assumes "payload ''user_id'' = Some i" and "users w i = Some u"
  shows "(i \<noteq> uid \<longrightarrow>
            fst (create_user_profile E uid data payload
                   (w\<lparr>users := (users w)(i \<mapsto> u\<lparr>u_is_active := b\<rparr>)\<rparr>))
              = fst (create_user_profile E uid data payload w)
          \<and> trace (snd (create_user_profile E uid data payload
                   (w\<lparr>users := (users w)(i \<mapsto> u\<lparr>u_is_active := b\<rparr>)\<rparr>)))
              = trace (snd (create_user_profile E uid data payload w))
          \<and> profiles (snd (create_user_profile E uid data payload
                   (w\<lparr>users := (users w)(i \<mapsto> u\<lparr>u_is_active := b\<rparr>)\<rparr>)))
              = profiles (snd (create_user_profile E uid data payload w)))
       \<and> (validate_image E (avatar data) = None
          \<and> \<not> upload_raises E (avatar_key_of uid) (content (avatar data)) \<longrightarrow>
            (if i \<noteq> uid \<and> u_group_id u \<noteq> 3
             then fst (create_user_profile E uid data payload w) = Inl forbidden
             else \<exists>es. trace (snd (create_user_profile E uid data payload w))
                    = trace w @ [S3Upload (avatar_key_of uid) (content (avatar data)),
                                 SelectUser (Some i), SelectProfile uid] @ es))"
proof (intro conjI impI)
  assume ne: "i \<noteq> uid"
  let ?w' = "w\<lparr>users := (users w)(i \<mapsto> u\<lparr>u_is_active := b\<rparr>)\<rparr>"
  consider "commit_raises E" | "\<not> commit_raises E" "refresh_raises E"
    | "\<not> commit_raises E" "\<not> refresh_raises E" by blast
  then have "fst (create_user_profile E uid data payload ?w')
              = fst (create_user_profile E uid data payload w)
          \<and> trace (snd (create_user_profile E uid data payload ?w'))
              = trace (snd (create_user_profile E uid data payload w))
          \<and> profiles (snd (create_user_profile E uid data payload ?w'))
              = profiles (snd (create_user_profile E uid data payload w))"
  proof cases
    case 1
    with assms ne show ?thesis
      by (simp add: handler_defs create_profile_commit_raises
          split: option.splits bool.splits sum.splits)
  next
    case 2
    with assms ne show ?thesis
      by (simp add: handler_defs create_profile_refresh_raises
          split: option.splits bool.splits sum.splits)
  next
    case 3
    with assms ne show ?thesis
      by (simp add: handler_defs create_profile_ok
          split: option.splits bool.splits sum.splits)
  qed
  then show "fst (create_user_profile E uid data payload ?w')
              = fst (create_user_profile E uid data payload w)"
    and "trace (snd (create_user_profile E uid data payload ?w'))
              = trace (snd (create_user_profile E uid data payload w))"
    and "profiles (snd (create_user_profile E uid data payload ?w'))
              = profiles (snd (create_user_profile E uid data payload w))"
    by simp_all
next
  assume up: "validate_image E (avatar data) = None
          \<and> \<not> upload_raises E (avatar_key_of uid) (content (avatar data))"
  show "if i \<noteq> uid \<and> u_group_id u \<noteq> 3
        then fst (create_user_profile E uid data payload w) = Inl forbidden
        else \<exists>es. trace (snd (create_user_profile E uid data payload w))
               = trace w @ [S3Upload (avatar_key_of uid) (content (avatar data)),
                            SelectUser (Some i), SelectProfile uid] @ es"
  proof (cases "i \<noteq> uid \<and> u_group_id u \<noteq> 3")
    case True
    with assms up show ?thesis by (simp add: handler_defs)
  next
    case False
    consider "commit_raises E" | "\<not> commit_raises E" "refresh_raises E"
      | "\<not> commit_raises E" "\<not> refresh_raises E" by blast
    then have "\<exists>es. trace (snd (create_user_profile E uid data payload w))
               = trace w @ [S3Upload (avatar_key_of uid) (content (avatar data)),
                            SelectUser (Some i), SelectProfile uid] @ es"
    proof cases
      case 1
      with assms up False show ?thesis
        by (auto simp: handler_defs create_profile_commit_raises
            split: option.splits bool.splits sum.splits)
    next
      case 2
      with assms up False show ?thesis
        by (auto simp: handler_defs create_profile_refresh_raises
            split: option.splits bool.splits sum.splits)
    next
      case 3
      with assms up False show ?thesis
        by (auto simp: handler_defs create_profile_ok
            split: option.splits bool.splits sum.splits)
    qed
    with False show ?thesis by auto
  qed
qed

lemma avatar_key_7: "avatar_key_of 7 = ''avatars/7_avatar.jpg''"
  by (simp add: avatar_key_of_def str_int_def str_nat.simps)

theorem acting_user_activity_not_checked_witness:
  "[''user_id'' \<mapsto> 7::int] ''user_id'' = Some 7
   \<and> users sample_world 7 = Some \<lparr>u_is_active = False, u_group_id = 1\<rparr>
   \<and> validate_image sample_env (avatar sample_data) = None
   \<and> fst (create_user_profile sample_env 8 sample_data [''user_id'' \<mapsto> 7] sample_world)
       = Inl forbidden
   \<and> fst (create_user_profile sample_env 8 sample_data [''user_id'' \<mapsto> 7]
           (sample_world\<lparr>users := (users sample_world)(7 \<mapsto> \<lparr>u_is_active = True, u_group_id = 1\<rparr>)\<rparr>))
       = Inl forbidden
   \<and> (\<exists>es. trace (snd (create_user_profile sample_env 7 sample_data [''user_id'' \<mapsto> 7] sample_world))
         = [S3Upload ''avatars/7_avatar.jpg'' ''JFIF'', SelectUser (Some 7), SelectProfile 7] @ es)"
proof -
  let ?payload = "[''user_id'' \<mapsto> 7::int]"
  let ?u = "\<lparr>u_is_active = False, u_group_id = 1\<rparr>"
  have i: "?payload ''user_id'' = Some 7" by simp
  have u: "users sample_world 7 = Some ?u" by (simp add: sample_world_def)
  have v: "validate_image sample_env (avatar sample_data) = None"
    by (simp add: sample_env_def sample_data_def sample_avatar_def)
  have up8: "\<not> upload_raises sample_env (avatar_key_of 8) (content (avatar sample_data))"
    and up7: "\<not> upload_raises sample_env (avatar_key_of 7) (content (avatar sample_data))"
    by (simp_all add: sample_env_def)
  have c: "content (avatar sample_data) = ''JFIF''" and t: "trace sample_world = []"
    by (simp_all add: sample_data_def sample_avatar_def sample_world_def)
  have b: "?u\<lparr>u_is_active := True\<rparr> = \<lparr>u_is_active = True, u_group_id = 1\<rparr>" by simp
  from acting_user_activity_not_checked [where payload = ?payload and i = 7 and w = sample_world
      and u = ?u and uid = 8 and E = sample_env and data = sample_data and b = True] i u v up8
  have 1: "fst (create_user_profile sample_env 8 sample_data ?payload sample_world) = Inl forbidden"
    and 2: "fst (create_user_profile sample_env 8 sample_data ?payload
           (sample_world\<lparr>users := (users sample_world)(7 \<mapsto> \<lparr>u_is_active = True, u_group_id = 1\<rparr>)\<rparr>))
       = Inl forbidden"
    unfolding b by simp_all
  from acting_user_activity_not_checked [where payload = ?payload and i = 7 and w = sample_world
      and u = ?u and uid = 7 and E = sample_env and data = sample_data and b = True] i u v up7
  have 3: "\<exists>es. trace (snd (create_user_profile sample_env 7 sample_data ?payload sample_world))
         = [S3Upload ''avatars/7_avatar.jpg'' ''JFIF'', SelectUser (Some 7), SelectProfile 7] @ es"
    unfolding avatar_key_7 c t by simp
  from i u v 1 2 3 show ?thesis by blast
qed

end
